theory Spec2Isabelle
  imports Complex_Main
begin

section \<open>Python floats\<close>

text \<open>
  Balances and amounts are Python floats (\<^verbatim>\<open>balance: float\<close>, \<^verbatim>\<open>amount: float\<close>), that is
  IEEE 754 binary64 values: a finite value, an infinity or NaN. A finite value is kept
  as the real number it denotes; the two zeros are not told apart (they compare equal
  and add alike).
\<close>

datatype pyfloat = Finite real | PosInf | NegInf | NaN

text \<open>Rounding to the nearest integer, a tie going to the even neighbour.\<close>

definition round_half_even :: "real \<Rightarrow> int" where
  "round_half_even x =
     (let f = \<lfloor>x\<rfloor>; d = x - of_int f
      in if d < 1 / 2 then f else if 1 / 2 < d then f + 1 else if even f then f else f + 1)"

text \<open>The number of binary digits of \<open>n\<close> (Python's \<^verbatim>\<open>int.bit_length\<close>).\<close>

fun bit_length :: "nat \<Rightarrow> nat" where
  "bit_length n = (if n = 0 then 0 else Suc (bit_length (n div 2)))"

definition pow2 :: "int \<Rightarrow> real" where
  "pow2 e = (if 0 \<le> e then 2 ^ nat e else 1 / 2 ^ nat (- e))"

text \<open>For \<open>x > 0\<close>, the exponent \<open>e\<close> with \<open>2 ^ e \<le> x < 2 ^ (e + 1)\<close>.\<close>

definition binade :: "real \<Rightarrow> int" where
  "binade x = (if 1 \<le> x then int (bit_length (nat \<lfloor>x\<rfloor>)) - 1
               else - int (bit_length (nat (\<lceil>1 / x\<rceil> - 1))))"

text \<open>
  The binary64 value nearest to a real number: 53 significant binary digits, the last
  of them worth at least \<open>2 ^ -1074\<close> (subnormal range), ties to even, and an infinity
  once the rounded magnitude reaches \<open>2 ^ 1024\<close>.
\<close>

definition round_double :: "real \<Rightarrow> pyfloat" where
  "round_double x =
     (if x = 0 then Finite 0
      else
        (let e = max (- 1074) (binade \<bar>x\<bar> - 52);
             r = of_int (round_half_even (\<bar>x\<bar> / pow2 e)) * pow2 e
         in if 2 ^ 1024 \<le> r then (if 0 < x then PosInf else NegInf)
            else Finite (if 0 < x then r else - r)))"

text \<open>A real number that a float can hold exactly.\<close>

definition is_double :: "real \<Rightarrow> bool" where
  "is_double x = (round_double x = Finite x)"

text \<open>Python's \<^verbatim>\<open>x + y\<close>, \<^verbatim>\<open>-x\<close>, \<^verbatim>\<open>x - y\<close>, \<^verbatim>\<open>x < y\<close> and \<^verbatim>\<open>x <= y\<close> on floats.\<close>

fun fadd :: "pyfloat \<Rightarrow> pyfloat \<Rightarrow> pyfloat" where
  "fadd NaN y = NaN"
| "fadd x NaN = NaN"
| "fadd PosInf NegInf = NaN"
| "fadd NegInf PosInf = NaN"
| "fadd PosInf y = PosInf"
| "fadd x PosInf = PosInf"
| "fadd NegInf y = NegInf"
| "fadd x NegInf = NegInf"
| "fadd (Finite a) (Finite b) = round_double (a + b)"

fun fneg :: "pyfloat \<Rightarrow> pyfloat" where
  "fneg (Finite a) = Finite (- a)"
| "fneg PosInf = NegInf"
| "fneg NegInf = PosInf"
| "fneg NaN = NaN"

definition fsub :: "pyfloat \<Rightarrow> pyfloat \<Rightarrow> pyfloat" where
  "fsub x y = fadd x (fneg y)"

fun flt :: "pyfloat \<Rightarrow> pyfloat \<Rightarrow> bool" where
  "flt NaN y = False"
| "flt x NaN = False"
| "flt x NegInf = False"
| "flt NegInf y = True"
| "flt PosInf y = False"
| "flt x PosInf = True"
| "flt (Finite a) (Finite b) = (a < b)"

definition fle :: "pyfloat \<Rightarrow> pyfloat \<Rightarrow> bool" where
  "fle x y = (flt x y \<or> (x = y \<and> x \<noteq> NaN))"


section \<open>Data model (schemas.py)\<close>

text \<open>
  The handlers of \<^verbatim>\<open>main.py\<close> read two fields of a stored account document, always
  through \<^verbatim>\<open>acc.get(field, default)\<close>; a field may therefore be absent, and both are
  optional here.
\<close>

record account =
  customer_id :: string
  account_type :: string
  balance :: "pyfloat option"
  currency :: "string option"
  nickname :: "string option"

datatype tx_type = Deposit | Withdraw | Transfer

record transaction =
  tx_account_id :: string
  tx_type :: tx_type
  tx_amount :: pyfloat
  tx_currency :: string
  tx_note :: "string option"
  tx_to_account_id :: "string option"
  tx_occurred_at :: "nat option"

text \<open>Request bodies (\<^verbatim>\<open>main.py\<close>, lines 77-86); \<^verbatim>\<open>amount\<close> is an unconstrained float.\<close>

record DepositWithdrawRequest =
  amount :: pyfloat
  req_note :: "string option"

record TransferRequest =
  from_account_id :: string
  to_account_id :: string
  transfer_amount :: pyfloat
  transfer_note :: "string option"

section \<open>Exceptions\<close>

text \<open>
  \<open>error\<close> lists the exceptions other than \<^verbatim>\<open>HTTPException\<close> that can be raised inside a
  handler: \<^verbatim>\<open>bson.errors.InvalidId\<close> from \<^verbatim>\<open>ObjectId(...)\<close>, pydantic's
  \<^verbatim>\<open>ValidationError\<close> from \<^verbatim>\<open>Transaction(...)\<close>, and an error of the document store.
  The detail of an \<^verbatim>\<open>HTTPException\<close> is either a literal of the source or \<^verbatim>\<open>str(e)\<close>.
\<close>

datatype error = InvalidId | ValidationError | StoreError

datatype detail = Text string | Str error

datatype exc = HTTPException nat detail | Raised error

section \<open>The document store\<close>

text \<open>
  Modelled from the spec: the module \<^verbatim>\<open>database.py\<close> (\<^verbatim>\<open>db\<close>, \<^verbatim>\<open>create_document\<close>,
  \<^verbatim>\<open>get_documents\<close>) is not among the sources. The spec describes the store as giving
  per-record reads and writes (sections 2 and 6) and the ledger-entry collection as
  append-only, in insertion order (section 3). The account collection is a map from the
  document's \<^verbatim>\<open>_id\<close> to the document, the transaction collection a list.

  Two fields are instruments of the model and are read by no handler:
  \<^item> \<open>faults\<close> schedules the outcome of the coming store calls, one flag per call
    (\<open>True\<close>: the call raises); an empty schedule means that no call fails;
  \<^item> \<open>journal\<close> keeps every content the account collection has had after a write, newest
    first, so that a property of the transient states can be stated.
\<close>

record 'oid db =
  accounts :: "'oid \<rightharpoonup> account"
  transactions :: "transaction list"
  faults :: "bool list"
  journal :: "('oid \<rightharpoonup> account) list"

type_synonym ('oid, 'a) io = "'oid db \<Rightarrow> (exc + 'a) \<times> 'oid db"

definition io_return :: "'a \<Rightarrow> ('oid, 'a) io" where
  "io_return x = (\<lambda>s. (Inr x, s))"

definition io_raise :: "exc \<Rightarrow> ('oid, 'a) io" where
  "io_raise e = (\<lambda>s. (Inl e, s))"

definition io_bind :: "('oid, 'a) io \<Rightarrow> ('a \<Rightarrow> ('oid, 'b) io) \<Rightarrow> ('oid, 'b) io" where
  "io_bind m f = (\<lambda>s. case m s of (Inl e, s') \<Rightarrow> (Inl e, s') | (Inr x, s') \<Rightarrow> f x s')"

definition store_call :: "('oid, unit) io" where
  "store_call = (\<lambda>s. case faults s of
       [] \<Rightarrow> (Inr (), s)
     | f # fs \<Rightarrow> (if f then Inl (Raised StoreError) else Inr (), s\<lparr>faults := fs\<rparr>))"

definition find_one :: "'oid \<Rightarrow> ('oid, account option) io" where
  "find_one k = io_bind store_call (\<lambda>_ s. (Inr (accounts s k), s))"

text \<open>
  \<^verbatim>\<open>update_one({"_id": k}, {"$set": {"balance": b}})\<close>: the matching document gets the
  field; with no matching document nothing is written and nothing is raised.
\<close>

definition update_one :: "'oid \<Rightarrow> pyfloat \<Rightarrow> ('oid, unit) io" where
  "update_one k b = io_bind store_call (\<lambda>_ s.
     (case accounts s k of
        None \<Rightarrow> (Inr (), s)
      | Some acc \<Rightarrow>
          (let coll = (accounts s)(k \<mapsto> acc\<lparr>balance := Some b\<rparr>)
           in (Inr (), s\<lparr>accounts := coll, journal := coll # journal s\<rparr>))))"

definition create_document :: "transaction \<Rightarrow> ('oid, unit) io" where
  "create_document tx = io_bind store_call (\<lambda>_ s.
     (Inr (), s\<lparr>transactions := transactions s @ [tx]\<rparr>))"

section \<open>Helpers of the handlers\<close>

text \<open>
  \<^verbatim>\<open>ObjectId\<close> and \<^verbatim>\<open>str\<close> on an \<^verbatim>\<open>ObjectId\<close> belong to the bson library; the handlers take
  them as parameters: \<open>ObjectId s = None\<close> stands for \<^verbatim>\<open>InvalidId\<close> being raised.
\<close>

definition object_id :: "(string \<Rightarrow> 'oid option) \<Rightarrow> string \<Rightarrow> ('oid, 'oid) io" where
  "object_id ObjectId s =
     (case ObjectId s of None \<Rightarrow> io_raise (Raised InvalidId) | Some k \<Rightarrow> io_return k)"

text \<open>\<^verbatim>\<open>float(acc.get("balance", 0))\<close> and \<^verbatim>\<open>acc.get("currency", "USD")\<close>.\<close>

definition balance_of :: "account \<Rightarrow> pyfloat" where
  "balance_of acc = (case balance acc of None \<Rightarrow> Finite 0 | Some b \<Rightarrow> b)"

definition currency_of :: "account \<Rightarrow> string" where
  "currency_of acc = (case currency acc of None \<Rightarrow> ''USD'' | Some c \<Rightarrow> c)"

text \<open>
  The constructor of the pydantic model \<^verbatim>\<open>Transaction\<close>: the field \<^verbatim>\<open>amount\<close> is declared
  with \<^verbatim>\<open>gt=0\<close>, so the constructor raises \<^verbatim>\<open>ValidationError\<close> on any other amount.
  \<^verbatim>\<open>occurred_at\<close> is never passed by a handler.
\<close>

definition Transaction ::
  "string \<Rightarrow> tx_type \<Rightarrow> pyfloat \<Rightarrow> string \<Rightarrow> string option \<Rightarrow> string option
     \<Rightarrow> ('oid, transaction) io" where
  "Transaction aid ty amt cur nt dest =
     (if flt (Finite 0) amt
      then io_return \<lparr>tx_account_id = aid, tx_type = ty, tx_amount = amt, tx_currency = cur,
                      tx_note = nt, tx_to_account_id = dest, tx_occurred_at = None\<rparr>
      else io_raise (Raised ValidationError))"

text \<open>
  Every handler body is wrapped in
  \<^verbatim>\<open>except Exception as e: if isinstance(e, HTTPException): raise e;
  raise HTTPException(status_code=500, detail=str(e))\<close>.
\<close>

definition try_except :: "('oid, 'a) io \<Rightarrow> ('oid, 'a) io" where
  "try_except m = (\<lambda>s. case m s of
       (Inl (Raised e), s') \<Rightarrow> (Inl (HTTPException 500 (Str e)), s')
     | r \<Rightarrow> r)"

section \<open>The handlers (main.py)\<close>

definition deposit ::
  "(string \<Rightarrow> 'oid option) \<Rightarrow> ('oid \<Rightarrow> string) \<Rightarrow> string \<Rightarrow> DepositWithdrawRequest
     \<Rightarrow> ('oid, pyfloat) io" where
  "deposit ObjectId str account_id payload = try_except (
     io_bind (object_id ObjectId account_id) (\<lambda>k.
     io_bind (find_one k) (\<lambda>found.
     case found of
       None \<Rightarrow> io_raise (HTTPException 404 (Text ''Account not found''))
     | Some acc \<Rightarrow>
         (let new_balance = fadd (balance_of acc) (amount payload) in
          io_bind (update_one k new_balance) (\<lambda>_.
          io_bind (Transaction (str k) Deposit (amount payload) (currency_of acc)
                     (req_note payload) None) (\<lambda>tx.
          io_bind (create_document tx) (\<lambda>_.
          io_return new_balance)))))))"

definition withdraw ::
  "(string \<Rightarrow> 'oid option) \<Rightarrow> ('oid \<Rightarrow> string) \<Rightarrow> string \<Rightarrow> DepositWithdrawRequest
     \<Rightarrow> ('oid, pyfloat) io" where
  "withdraw ObjectId str account_id payload = try_except (
     io_bind (object_id ObjectId account_id) (\<lambda>k.
     io_bind (find_one k) (\<lambda>found.
     case found of
       None \<Rightarrow> io_raise (HTTPException 404 (Text ''Account not found''))
     | Some acc \<Rightarrow>
         (let current = balance_of acc in
          if flt current (amount payload)
          then io_raise (HTTPException 400 (Text ''Insufficient funds''))
          else
            (let new_balance = fsub current (amount payload) in
             io_bind (update_one k new_balance) (\<lambda>_.
             io_bind (Transaction (str k) Withdraw (amount payload) (currency_of acc)
                        (req_note payload) None) (\<lambda>tx.
             io_bind (create_document tx) (\<lambda>_.
             io_return new_balance))))))))"

definition transfer ::
  "(string \<Rightarrow> 'oid option) \<Rightarrow> ('oid \<Rightarrow> string) \<Rightarrow> TransferRequest
     \<Rightarrow> ('oid, string) io" where
  "transfer ObjectId str payload = try_except (
     io_bind (object_id ObjectId (from_account_id payload)) (\<lambda>kf.
     io_bind (find_one kf) (\<lambda>from_found.
     io_bind (object_id ObjectId (to_account_id payload)) (\<lambda>kt.
     io_bind (find_one kt) (\<lambda>to_found.
     case from_found of
       None \<Rightarrow> io_raise (HTTPException 404 (Text ''Source or destination account not found''))
     | Some from_acc \<Rightarrow>
        (case to_found of
           None \<Rightarrow>
             io_raise (HTTPException 404 (Text ''Source or destination account not found''))
         | Some to_acc \<Rightarrow>
             if currency from_acc \<noteq> currency to_acc
             then io_raise (HTTPException 400 (Text ''Currency mismatch''))
             else
               (let current = balance_of from_acc in
                if flt current (transfer_amount payload)
                then io_raise (HTTPException 400 (Text ''Insufficient funds''))
                else
                  io_bind (update_one kf (fsub current (transfer_amount payload))) (\<lambda>_.
                  io_bind (update_one kt (fadd (balance_of to_acc) (transfer_amount payload))) (\<lambda>_.
                  io_bind (Transaction (str kf) Transfer (transfer_amount payload)
                             (currency_of from_acc) (transfer_note payload)
                             (Some (str kt))) (\<lambda>tx_out.
                  io_bind (create_document tx_out) (\<lambda>_.
                  io_bind (Transaction (str kt) Deposit (transfer_amount payload)
                             (currency_of to_acc) (Some (''Transfer from '' @ str kf))
                             None) (\<lambda>tx_in.
                  io_bind (create_document tx_in) (\<lambda>_.
                  io_return ''ok'')))))))))))))"

section \<open>The two phases of a withdrawal, and two withdrawals that overlap\<close>

text \<open>
  \<^verbatim>\<open>withdraw\<close> makes two store calls on the account: \<^verbatim>\<open>find_one\<close> (lines 161-166, with
  the check of the amount against the balance read) and \<^verbatim>\<open>update_one\<close> (lines 167-177,
  with the new balance computed from the document read before, and the ledger entry).
  Nothing in the source holds the account between the two.
\<close>

definition withdraw_read ::
  "(string \<Rightarrow> 'oid option) \<Rightarrow> string \<Rightarrow> DepositWithdrawRequest
     \<Rightarrow> ('oid, 'oid \<times> account) io" where
  "withdraw_read ObjectId account_id payload =
     io_bind (object_id ObjectId account_id) (\<lambda>k.
     io_bind (find_one k) (\<lambda>found.
     case found of
       None \<Rightarrow> io_raise (HTTPException 404 (Text ''Account not found''))
     | Some acc \<Rightarrow>
         (let current = balance_of acc in
          if flt current (amount payload)
          then io_raise (HTTPException 400 (Text ''Insufficient funds''))
          else io_return (k, acc))))"

definition withdraw_write ::
  "('oid \<Rightarrow> string) \<Rightarrow> DepositWithdrawRequest \<Rightarrow> 'oid \<times> account \<Rightarrow> ('oid, pyfloat) io" where
  "withdraw_write str payload = (\<lambda>(k, acc).
     (let new_balance = fsub (balance_of acc) (amount payload) in
      io_bind (update_one k new_balance) (\<lambda>_.
      io_bind (Transaction (str k) Withdraw (amount payload) (currency_of acc)
                 (req_note payload) None) (\<lambda>tx.
      io_bind (create_document tx) (\<lambda>_.
      io_return new_balance)))))"

text \<open>A call that has finished its first phase with \<open>r\<close> goes on, inside its own \<^verbatim>\<open>try\<close>.\<close>

definition resume :: "(exc + 'a) \<Rightarrow> ('a \<Rightarrow> ('oid, 'b) io) \<Rightarrow> ('oid, 'b) io" where
  "resume r f = try_except (io_bind (\<lambda>s. (r, s)) f)"

text \<open>
  Two calls served at the same time, in the order: first call reads, second call reads,
  first call writes, second call writes.
\<close>

definition withdraw_race ::
  "(string \<Rightarrow> 'oid option) \<Rightarrow> ('oid \<Rightarrow> string) \<Rightarrow> string \<Rightarrow> DepositWithdrawRequest
     \<Rightarrow> string \<Rightarrow> DepositWithdrawRequest \<Rightarrow> 'oid db
     \<Rightarrow> ((exc + pyfloat) \<times> (exc + pyfloat)) \<times> 'oid db" where
  "withdraw_race ObjectId str a1 p1 a2 p2 s =
     (case withdraw_read ObjectId a1 p1 s of (r1, s1) \<Rightarrow>
      case withdraw_read ObjectId a2 p2 s1 of (r2, s2) \<Rightarrow>
      case resume r1 (withdraw_write str p1) s2 of (w1, s3) \<Rightarrow>
      case resume r2 (withdraw_write str p2) s3 of (w2, s4) \<Rightarrow>
      ((w1, w2), s4))"

section \<open>Observations, sequences of calls, the balance invariant\<close>

text \<open>The balance field stored for an account, as it is in the document.\<close>

definition balance_at :: "'oid db \<Rightarrow> 'oid \<Rightarrow> pyfloat option" where
  "balance_at s k = (case accounts s k of None \<Rightarrow> None | Some acc \<Rightarrow> balance acc)"








section \<open>A sample store\<close>

text \<open>
  Concrete inputs for the instances below: document ids are plain strings, every string
  is accepted by \<open>ObjectId\<close>, and \<open>str\<close> gives the string back.
\<close>

definition acct :: "real \<Rightarrow> string \<Rightarrow> account" where
  "acct b c = \<lparr>customer_id = ''c1'', account_type = ''checking'', balance = Some (Finite b),
              currency = Some c, nickname = None\<rparr>"

definition bank :: "string db" where
  "bank = \<lparr>accounts = [''A'' \<mapsto> acct 100 ''USD'', ''B'' \<mapsto> acct 50 ''USD'',
                        ''E'' \<mapsto> acct 10 ''EUR'', ''Z'' \<mapsto> acct 0 ''USD'',
                        ''L'' \<mapsto> acct 10000000000000000 ''USD''],
           transactions = [], faults = [], journal = []\<rparr>"

definition pay :: "real \<Rightarrow> DepositWithdrawRequest" where
  "pay a = \<lparr>amount = Finite a, req_note = None\<rparr>"

definition move :: "string \<Rightarrow> string \<Rightarrow> real \<Rightarrow> TransferRequest" where
  "move a b x = \<lparr>from_account_id = a, to_account_id = b, transfer_amount = Finite x,
                 transfer_note = Some ''rent''\<rparr>"

text \<open>The same store when the fourth store call to come fails, and a sequence of calls.\<close>

definition bank_failing_credit :: "string db" where
  "bank_failing_credit = bank\<lparr>faults := [False, False, False, True]\<rparr>"


section \<open>Facts about floats\<close>

declare bit_length.simps [simp del]

lemma bit_length_0 [simp]: "bit_length 0 = 0"
  by (simp add: bit_length.simps)

lemma bit_length_1 [simp]: "bit_length (Suc 0) = Suc 0"
  by (simp add: bit_length.simps)

lemma bit_length_numeral [simp]:
  "bit_length (numeral k) = Suc (bit_length (numeral k div 2))"
  by (simp add: bit_length.simps)

lemmas float_defs = round_double_def round_half_even_def binade_def pow2_def is_double_def
  fsub_def fle_def




lemma fle_not_flt: "fle x y \<Longrightarrow> \<not> flt y x"
  by (cases x; cases y) (auto simp: fle_def)



text \<open>Where the exact result is a float, the operation is exact.\<close>

lemma fsub_exact: "is_double (a - b) \<Longrightarrow> fsub (Finite a) (Finite b) = Finite (a - b)"
  by (simp add: is_double_def fsub_def)

section \<open>What each handler computes\<close>

lemmas io_defs = io_return_def io_raise_def io_bind_def store_call_def find_one_def
  update_one_def create_document_def object_id_def Transaction_def try_except_def

lemmas sample_defs = bank_def acct_def pay_def move_def balance_at_def balance_of_def
  currency_of_def

lemma balance_of_update [simp]: "balance_of (acc\<lparr>balance := Some b\<rparr>) = b"
  by (simp add: balance_of_def)

lemma deposit_ok:
  assumes "ObjectId account_id = Some k" and "accounts s k = Some acc"
    and "flt (Finite 0) (amount payload)" and "faults s = []"
  shows "deposit ObjectId str account_id payload s =
    (Inr (fadd (balance_of acc) (amount payload)),
     s\<lparr>accounts := (accounts s)
          (k \<mapsto> acc\<lparr>balance := Some (fadd (balance_of acc) (amount payload))\<rparr>),
       journal := (accounts s)
          (k \<mapsto> acc\<lparr>balance := Some (fadd (balance_of acc) (amount payload))\<rparr>)
         # journal s,
       transactions := transactions s @
         [\<lparr>tx_account_id = str k, tx_type = Deposit, tx_amount = amount payload,
           tx_currency = currency_of acc, tx_note = req_note payload,
           tx_to_account_id = None, tx_occurred_at = None\<rparr>]\<rparr>)"
  using assms by (simp add: deposit_def io_defs Let_def)

lemma withdraw_ok:
  assumes "ObjectId account_id = Some k" and "accounts s k = Some acc"
    and "flt (Finite 0) (amount payload)" and "\<not> flt (balance_of acc) (amount payload)"
    and "faults s = []"
  shows "withdraw ObjectId str account_id payload s =
    (Inr (fsub (balance_of acc) (amount payload)),
     s\<lparr>accounts := (accounts s)
          (k \<mapsto> acc\<lparr>balance := Some (fsub (balance_of acc) (amount payload))\<rparr>),
       journal := (accounts s)
          (k \<mapsto> acc\<lparr>balance := Some (fsub (balance_of acc) (amount payload))\<rparr>)
         # journal s,
       transactions := transactions s @
         [\<lparr>tx_account_id = str k, tx_type = Withdraw, tx_amount = amount payload,
           tx_currency = currency_of acc, tx_note = req_note payload,
           tx_to_account_id = None, tx_occurred_at = None\<rparr>]\<rparr>)"
  using assms by (simp add: withdraw_def io_defs Let_def)

lemma withdraw_insufficient:
  assumes "ObjectId account_id = Some k" and "accounts s k = Some acc"
    and "flt (balance_of acc) (amount payload)" and "faults s = []"
  shows "withdraw ObjectId str account_id payload s =
    (Inl (HTTPException 400 (Text ''Insufficient funds'')), s)"
  using assms by (simp add: withdraw_def io_defs Let_def)

lemma transfer_ok:
  assumes "ObjectId (from_account_id p) = Some kf" and "ObjectId (to_account_id p) = Some kt"
    and "kf \<noteq> kt" and "accounts s kf = Some fa" and "accounts s kt = Some ta"
    and "currency fa = currency ta" and "flt (Finite 0) (transfer_amount p)"
    and "\<not> flt (balance_of fa) (transfer_amount p)" and "faults s = []"
  shows "transfer ObjectId str p s =
    (Inr ''ok'',
     s\<lparr>accounts := (accounts s)
          (kf \<mapsto> fa\<lparr>balance := Some (fsub (balance_of fa) (transfer_amount p))\<rparr>,
           kt \<mapsto> ta\<lparr>balance := Some (fadd (balance_of ta) (transfer_amount p))\<rparr>),
       journal := (accounts s)
          (kf \<mapsto> fa\<lparr>balance := Some (fsub (balance_of fa) (transfer_amount p))\<rparr>,
           kt \<mapsto> ta\<lparr>balance := Some (fadd (balance_of ta) (transfer_amount p))\<rparr>)
         # (accounts s)(kf \<mapsto> fa\<lparr>balance := Some (fsub (balance_of fa) (transfer_amount p))\<rparr>)
         # journal s,
       transactions := transactions s @
         [\<lparr>tx_account_id = str kf, tx_type = Transfer, tx_amount = transfer_amount p,
           tx_currency = currency_of fa, tx_note = transfer_note p,
           tx_to_account_id = Some (str kt), tx_occurred_at = None\<rparr>,
          \<lparr>tx_account_id = str kt, tx_type = Deposit, tx_amount = transfer_amount p,
           tx_currency = currency_of ta, tx_note = Some (''Transfer from '' @ str kf),
           tx_to_account_id = None, tx_occurred_at = None\<rparr>]\<rparr>)"
  using assms by (simp add: transfer_def io_defs Let_def)

text \<open>
  With one account on both sides, the credit is computed from the document read before
  the debit and is written over the debited balance.
\<close>

lemma transfer_self:
  assumes "ObjectId (from_account_id p) = Some k" and "ObjectId (to_account_id p) = Some k"
    and "accounts s k = Some acc" and "flt (Finite 0) (transfer_amount p)"
    and "\<not> flt (balance_of acc) (transfer_amount p)" and "faults s = []"
  shows "transfer ObjectId str p s =
    (Inr ''ok'',
     s\<lparr>accounts := (accounts s)
          (k \<mapsto> acc\<lparr>balance := Some (fadd (balance_of acc) (transfer_amount p))\<rparr>),
       journal := (accounts s)
          (k \<mapsto> acc\<lparr>balance := Some (fadd (balance_of acc) (transfer_amount p))\<rparr>)
         # (accounts s)(k \<mapsto> acc\<lparr>balance := Some (fsub (balance_of acc) (transfer_amount p))\<rparr>)
         # journal s,
       transactions := transactions s @
         [\<lparr>tx_account_id = str k, tx_type = Transfer, tx_amount = transfer_amount p,
           tx_currency = currency_of acc, tx_note = transfer_note p,
           tx_to_account_id = Some (str k), tx_occurred_at = None\<rparr>,
          \<lparr>tx_account_id = str k, tx_type = Deposit, tx_amount = transfer_amount p,
           tx_currency = currency_of acc, tx_note = Some (''Transfer from '' @ str k),
           tx_to_account_id = None, tx_occurred_at = None\<rparr>]\<rparr>)"
  using assms by (simp add: transfer_def io_defs Let_def)

lemma transfer_mismatch:
  assumes "ObjectId (from_account_id p) = Some kf" and "ObjectId (to_account_id p) = Some kt"
    and "accounts s kf = Some fa" and "accounts s kt = Some ta"
    and "currency fa \<noteq> currency ta" and "faults s = []"
  shows "transfer ObjectId str p s = (Inl (HTTPException 400 (Text ''Currency mismatch'')), s)"
  using assms by (simp add: transfer_def io_defs)

text \<open>
  A deposit whose amount is not strictly positive: the balance is written first, the
  amount is checked only when the ledger entry is built.
\<close>

lemma deposit_nonpositive:
  assumes "ObjectId account_id = Some k" and "accounts s k = Some acc"
    and "\<not> flt (Finite 0) (amount payload)" and "faults s = []"
  shows "deposit ObjectId str account_id payload s =
    (Inl (HTTPException 500 (Str ValidationError)),
     s\<lparr>accounts := (accounts s)
          (k \<mapsto> acc\<lparr>balance := Some (fadd (balance_of acc) (amount payload))\<rparr>),
       journal := (accounts s)
          (k \<mapsto> acc\<lparr>balance := Some (fadd (balance_of acc) (amount payload))\<rparr>)
         # journal s\<rparr>)"
  using assms by (simp add: deposit_def io_defs Let_def)

subsection \<open>The two phases of a withdrawal\<close>

text \<open>A withdrawal is its first phase followed at once by its second.\<close>

lemma withdraw_split:
  "withdraw ObjectId str account_id payload s =
     (case withdraw_read ObjectId account_id payload s of
        (r, s') \<Rightarrow> resume r (withdraw_write str payload) s')"
  by (simp add: withdraw_def withdraw_read_def withdraw_write_def resume_def try_except_def
        io_bind_def io_raise_def io_return_def object_id_def Let_def
      split: option.splits prod.splits sum.splits exc.splits)

lemma withdraw_read_ok:
  assumes "ObjectId account_id = Some k" and "accounts s k = Some acc"
    and "\<not> flt (balance_of acc) (amount payload)" and "faults s = []"
  shows "withdraw_read ObjectId account_id payload s = (Inr (k, acc), s)"
  using assms by (simp add: withdraw_read_def io_defs Let_def)

lemma withdraw_write_ok:
  assumes "accounts s k = Some acc'" and "flt (Finite 0) (amount payload)" and "faults s = []"
  shows "resume (Inr (k, acc)) (withdraw_write str payload) s =
    (Inr (fsub (balance_of acc) (amount payload)),
     s\<lparr>accounts := (accounts s)
          (k \<mapsto> acc'\<lparr>balance := Some (fsub (balance_of acc) (amount payload))\<rparr>),
       journal := (accounts s)
          (k \<mapsto> acc'\<lparr>balance := Some (fsub (balance_of acc) (amount payload))\<rparr>)
         # journal s,
       transactions := transactions s @
         [\<lparr>tx_account_id = str k, tx_type = Withdraw, tx_amount = amount payload,
           tx_currency = currency_of acc, tx_note = req_note payload,
           tx_to_account_id = None, tx_occurred_at = None\<rparr>]\<rparr>)"
  using assms by (simp add: resume_def withdraw_write_def io_defs Let_def)

subsection \<open>The handlers keep balances non-negative\<close>






subsection \<open>Facts about the sample store\<close>





section \<open>Deposit and withdrawal\<close>

text \<open>
  Claim C8 (as stated, it fails). A deposit of 1 on an account holding \<open>10 ^ 16\<close>: the
  call succeeds and returns \<open>10 ^ 16\<close>, which is also the balance stored; it is not
  \<open>b + amount\<close>, the sum having no float of its own.
\<close>
theorem deposit_sum_is_rounded:
  "balance_at bank ''L'' = Some (Finite 10000000000000000) \<and>
   fst (deposit Some (\<lambda>k. k) ''L'' (pay 1) bank) = Inr (Finite 10000000000000000) \<and>
   balance_at (snd (deposit Some (\<lambda>k. k) ''L'' (pay 1) bank)) ''L''
     = Some (Finite 10000000000000000) \<and>
   Finite 10000000000000000 \<noteq> Finite (10000000000000000 + 1)"
  by (simp add: deposit_def io_defs sample_defs float_defs Let_def)

text \<open>
  Claim C8 (amended). A deposit of a strictly positive amount on an existing account with
  balance \<open>b\<close>, when no store call fails: the balance becomes the float sum of \<open>b\<close> and
  the amount (the float nearest to \<open>b + amount\<close>), that new balance is the result, and
  exactly one ledger entry is appended, of type deposit, carrying the currency stored in
  the account, or USD when the account stores none. Where \<open>b + amount\<close> is itself a
  float, the balance is exactly \<open>b + amount\<close>.
\<close>
theorem deposit_adds_amount:
  assumes "ObjectId account_id = Some k" and "accounts s k = Some acc"
    and "b = (case balance acc of None \<Rightarrow> Finite 0 | Some x \<Rightarrow> x)"
    and "c = (case currency acc of None \<Rightarrow> ''USD'' | Some x \<Rightarrow> x)"
    and "flt (Finite 0) (amount payload)" and "faults s = []"
    and "deposit ObjectId str account_id payload s = (r, s')"
  shows "r = Inr (fadd b (amount payload)) \<and>
         balance_at s' k = Some (fadd b (amount payload)) \<and>
         transactions s' = transactions s @
           [\<lparr>tx_account_id = str k, tx_type = Deposit, tx_amount = amount payload,
             tx_currency = c, tx_note = req_note payload,
             tx_to_account_id = None, tx_occurred_at = None\<rparr>] \<and>
         (\<forall>x a. b = Finite x \<and> amount payload = Finite a \<and> is_double (x + a) \<longrightarrow>
            r = Inr (Finite (x + a)) \<and> balance_at s' k = Some (Finite (x + a)))"
proof -
  note deposit_ok [where ObjectId = ObjectId and str = str, OF assms(1,2,5,6)]
  with assms(7) have r: "r = Inr (fadd b (amount payload))"
    and bal: "balance_at s' k = Some (fadd b (amount payload))"
    and led: "transactions s' = transactions s @
           [\<lparr>tx_account_id = str k, tx_type = Deposit, tx_amount = amount payload,
             tx_currency = c, tx_note = req_note payload,
             tx_to_account_id = None, tx_occurred_at = None\<rparr>]"
    by (auto simp: balance_at_def balance_of_def currency_of_def assms(3,4))
  from r bal led show ?thesis by (auto simp: is_double_def)
qed

theorem deposit_adds_amount_witness:
  "fst (deposit Some (\<lambda>k. k) ''E'' (pay 5) bank) = Inr (Finite 15) \<and>
   balance_at (snd (deposit Some (\<lambda>k. k) ''E'' (pay 5) bank)) ''E'' = Some (Finite 15) \<and>
   transactions (snd (deposit Some (\<lambda>k. k) ''E'' (pay 5) bank)) =
     [\<lparr>tx_account_id = ''E'', tx_type = Deposit, tx_amount = Finite 5, tx_currency = ''EUR'',
       tx_note = None, tx_to_account_id = None, tx_occurred_at = None\<rparr>]"
proof -
  have i: "Some ''E'' = Some ''E''" by simp
  have a: "accounts bank ''E'' = Some (acct 10 ''EUR'')" by (simp add: bank_def)
  have b: "Finite 10 = (case balance (acct 10 ''EUR'') of None \<Rightarrow> Finite 0 | Some x \<Rightarrow> x)"
    by (simp add: acct_def)
  have c: "''EUR'' = (case currency (acct 10 ''EUR'') of None \<Rightarrow> ''USD'' | Some x \<Rightarrow> x)"
    by (simp add: acct_def)
  have p: "flt (Finite 0) (amount (pay 5))" by (simp add: pay_def)
  have f: "faults bank = []" by (simp add: bank_def)
  have t: "transactions bank = []" by (simp add: bank_def)
  have sum: "fadd (Finite 10) (amount (pay 5)) = Finite 15"
    by (simp add: pay_def float_defs Let_def)
  from deposit_adds_amount [where ObjectId = Some and str = "\<lambda>k. k",
         OF i a b c p f surjective_pairing]
  have "fst (deposit Some (\<lambda>k. k) ''E'' (pay 5) bank) = Inr (fadd (Finite 10) (amount (pay 5))) \<and>
     balance_at (snd (deposit Some (\<lambda>k. k) ''E'' (pay 5) bank)) ''E''
       = Some (fadd (Finite 10) (amount (pay 5))) \<and>
     transactions (snd (deposit Some (\<lambda>k. k) ''E'' (pay 5) bank)) = transactions bank @
       [\<lparr>tx_account_id = ''E'', tx_type = Deposit, tx_amount = amount (pay 5),
         tx_currency = ''EUR'', tx_note = req_note (pay 5),
         tx_to_account_id = None, tx_occurred_at = None\<rparr>]"
    by blast
  then show ?thesis by (simp add: sum t) (simp add: pay_def)
qed

text \<open>
  Claim C4 (as stated, it fails). A withdrawal of 1 from an account holding \<open>10 ^ 16\<close>:
  the call succeeds, a ledger entry of 1 is appended, and the balance returned and
  stored is still \<open>10 ^ 16\<close>, not \<open>b - amount\<close>.
\<close>
theorem withdraw_difference_is_rounded:
  "balance_at bank ''L'' = Some (Finite 10000000000000000) \<and>
   fst (withdraw Some (\<lambda>k. k) ''L'' (pay 1) bank) = Inr (Finite 10000000000000000) \<and>
   balance_at (snd (withdraw Some (\<lambda>k. k) ''L'' (pay 1) bank)) ''L''
     = Some (Finite 10000000000000000) \<and>
   map tx_amount (transactions (snd (withdraw Some (\<lambda>k. k) ''L'' (pay 1) bank))) = [Finite 1] \<and>
   Finite 10000000000000000 \<noteq> Finite (10000000000000000 - 1)"
  by (simp add: withdraw_def io_defs sample_defs float_defs Let_def)

text \<open>
  Claim C4 (amended). A withdrawal on an existing account with balance \<open>b\<close>, when no store
  call fails: an amount above \<open>b\<close> is refused with "Insufficient funds" (HTTP 400) and
  neither the accounts nor the ledger change; an amount with \<open>0 < amount \<le> b\<close> succeeds,
  the result and the new balance are the float difference of \<open>b\<close> and the amount (the
  float nearest to \<open>b - amount\<close>), and exactly one ledger entry of type withdraw is
  appended. Where \<open>b - amount\<close> is itself a float, the new balance is exactly
  \<open>b - amount\<close>.
\<close>
theorem withdraw_checks_funds:
  assumes "ObjectId account_id = Some k" and "accounts s k = Some acc"
    and "b = (case balance acc of None \<Rightarrow> Finite 0 | Some x \<Rightarrow> x)"
    and "c = (case currency acc of None \<Rightarrow> ''USD'' | Some x \<Rightarrow> x)"
    and "faults s = []"
    and "withdraw ObjectId str account_id payload s = (r, s')"
  shows "(flt b (amount payload) \<longrightarrow>
            r = Inl (HTTPException 400 (Text ''Insufficient funds'')) \<and>
            accounts s' = accounts s \<and> balance_at s' k = balance_at s k \<and>
            transactions s' = transactions s) \<and>
         (flt (Finite 0) (amount payload) \<and> fle (amount payload) b \<longrightarrow>
            r = Inr (fsub b (amount payload)) \<and>
            balance_at s' k = Some (fsub b (amount payload)) \<and>
            transactions s' = transactions s @
              [\<lparr>tx_account_id = str k, tx_type = Withdraw, tx_amount = amount payload,
                tx_currency = c, tx_note = req_note payload,
                tx_to_account_id = None, tx_occurred_at = None\<rparr>]) \<and>
         (\<forall>x a. b = Finite x \<and> amount payload = Finite a \<and> 0 < a \<and> a \<le> x \<and>
                 is_double (x - a) \<longrightarrow>
            r = Inr (Finite (x - a)) \<and> balance_at s' k = Some (Finite (x - a)))"
proof -
  have b: "balance_of acc = b" by (simp add: balance_of_def assms(3))
  have c: "currency_of acc = c" by (simp add: currency_of_def assms(4))
  have low: "r = Inl (HTTPException 400 (Text ''Insufficient funds'')) \<and>
            accounts s' = accounts s \<and> balance_at s' k = balance_at s k \<and>
            transactions s' = transactions s" if less: "flt b (amount payload)"
  proof -
    from less b have "flt (balance_of acc) (amount payload)" by simp
    note withdraw_insufficient [where ObjectId = ObjectId and str = str,
           OF assms(1,2) this assms(5)]
    with assms(6) show ?thesis by simp
  qed
  have ok: "r = Inr (fsub b (amount payload)) \<and>
            balance_at s' k = Some (fsub b (amount payload)) \<and>
            transactions s' = transactions s @
              [\<lparr>tx_account_id = str k, tx_type = Withdraw, tx_amount = amount payload,
                tx_currency = c, tx_note = req_note payload,
                tx_to_account_id = None, tx_occurred_at = None\<rparr>]"
    if pos: "flt (Finite 0) (amount payload)" and le: "fle (amount payload) b"
  proof -
    from le b have "\<not> flt (balance_of acc) (amount payload)" by (simp add: fle_not_flt)
    note withdraw_ok [where ObjectId = ObjectId and str = str, OF assms(1,2) pos this assms(5)]
    with assms(6) b c show ?thesis by (auto simp: balance_at_def)
  qed
  have exact: "r = Inr (Finite (x - a)) \<and> balance_at s' k = Some (Finite (x - a))"
    if "b = Finite x" and "amount payload = Finite a" and "0 < a" and "a \<le> x"
      and "is_double (x - a)" for x a
  proof -
    from that have "flt (Finite 0) (amount payload)" and "fle (amount payload) b"
      by (auto simp: fle_def)
    then have "r = Inr (fsub b (amount payload)) \<and>
               balance_at s' k = Some (fsub b (amount payload))" using ok by simp
    with that show ?thesis by (simp add: fsub_exact)
  qed
  from low ok exact show ?thesis by blast
qed

theorem withdraw_checks_funds_witness:
  "fst (withdraw Some (\<lambda>k. k) ''E'' (pay 11) bank)
     = Inl (HTTPException 400 (Text ''Insufficient funds'')) \<and>
   balance_at (snd (withdraw Some (\<lambda>k. k) ''E'' (pay 11) bank)) ''E'' = Some (Finite 10) \<and>
   transactions (snd (withdraw Some (\<lambda>k. k) ''E'' (pay 11) bank)) = [] \<and>
   fst (withdraw Some (\<lambda>k. k) ''E'' (pay 10) bank) = Inr (Finite 0) \<and>
   balance_at (snd (withdraw Some (\<lambda>k. k) ''E'' (pay 10) bank)) ''E'' = Some (Finite 0) \<and>
   transactions (snd (withdraw Some (\<lambda>k. k) ''E'' (pay 10) bank)) =
     [\<lparr>tx_account_id = ''E'', tx_type = Withdraw, tx_amount = Finite 10, tx_currency = ''EUR'',
       tx_note = None, tx_to_account_id = None, tx_occurred_at = None\<rparr>]"
proof -
  have i: "Some ''E'' = Some ''E''" by simp
  have a: "accounts bank ''E'' = Some (acct 10 ''EUR'')" by (simp add: bank_def)
  have b: "Finite 10 = (case balance (acct 10 ''EUR'') of None \<Rightarrow> Finite 0 | Some x \<Rightarrow> x)"
    by (simp add: acct_def)
  have c: "''EUR'' = (case currency (acct 10 ''EUR'') of None \<Rightarrow> ''USD'' | Some x \<Rightarrow> x)"
    by (simp add: acct_def)
  have f: "faults bank = []" by (simp add: bank_def)
  have t: "transactions bank = []" by (simp add: bank_def)
  have e: "balance_at bank ''E'' = Some (Finite 10)" by (simp add: sample_defs)
  have less: "flt (Finite 10) (amount (pay 11))" by (simp add: pay_def)
  have ok: "flt (Finite 0) (amount (pay 10)) \<and> fle (amount (pay 10)) (Finite 10)"
    by (simp add: pay_def fle_def)
  have sub: "fsub (Finite 10) (amount (pay 10)) = Finite 0"
    by (simp add: pay_def float_defs Let_def)
  from less withdraw_checks_funds [where ObjectId = Some and str = "\<lambda>k. k"
         and payload = "pay 11", OF i a b c f surjective_pairing]
  have low: "fst (withdraw Some (\<lambda>k. k) ''E'' (pay 11) bank)
       = Inl (HTTPException 400 (Text ''Insufficient funds'')) \<and>
     balance_at (snd (withdraw Some (\<lambda>k. k) ''E'' (pay 11) bank)) ''E'' = balance_at bank ''E'' \<and>
     transactions (snd (withdraw Some (\<lambda>k. k) ''E'' (pay 11) bank)) = transactions bank"
    by blast
  from ok withdraw_checks_funds [where ObjectId = Some and str = "\<lambda>k. k"
         and payload = "pay 10", OF i a b c f surjective_pairing]
  have high: "fst (withdraw Some (\<lambda>k. k) ''E'' (pay 10) bank)
       = Inr (fsub (Finite 10) (amount (pay 10))) \<and>
     balance_at (snd (withdraw Some (\<lambda>k. k) ''E'' (pay 10) bank)) ''E''
       = Some (fsub (Finite 10) (amount (pay 10))) \<and>
     transactions (snd (withdraw Some (\<lambda>k. k) ''E'' (pay 10) bank)) = transactions bank @
       [\<lparr>tx_account_id = ''E'', tx_type = Withdraw, tx_amount = amount (pay 10),
         tx_currency = ''EUR'', tx_note = req_note (pay 10),
         tx_to_account_id = None, tx_occurred_at = None\<rparr>]"
    by blast
  from low high show ?thesis by (simp add: sub t e) (simp add: pay_def)
qed



text \<open>
  Claim C5 (the code at a failing input). A deposit of \<open>-30\<close> on an account holding 100:
  the call fails, with the generic status 500 carrying the text of the validation error,
  after the balance has been written: the account holds 70 and no ledger entry exists.
\<close>
theorem deposit_negative_amount_is_applied:
  "fst (deposit Some (\<lambda>k. k) ''A'' (pay (- 30)) bank)
     = Inl (HTTPException 500 (Str ValidationError)) \<and>
   balance_at bank ''A'' = Some (Finite 100) \<and>
   balance_at (snd (deposit Some (\<lambda>k. k) ''A'' (pay (- 30)) bank)) ''A'' = Some (Finite 70) \<and>
   transactions (snd (deposit Some (\<lambda>k. k) ''A'' (pay (- 30)) bank)) = []"
  by (simp add: deposit_def io_defs sample_defs float_defs Let_def)


section \<open>Transfer\<close>

text \<open>
  Claim C2 (as stated, it fails). A transfer of 1 from an account holding \<open>10 ^ 16\<close> to an
  account holding 0 succeeds: the source still holds \<open>10 ^ 16\<close>, not \<open>a0 - amt\<close>, the
  destination holds 1, and the two balances now add up to \<open>10 ^ 16 + 1\<close>.
\<close>
theorem transfer_sum_not_conserved:
  "balance_at bank ''L'' = Some (Finite 10000000000000000) \<and>
   balance_at bank ''Z'' = Some (Finite 0) \<and>
   fst (transfer Some (\<lambda>k. k) (move ''L'' ''Z'' 1) bank) = Inr ''ok'' \<and>
   balance_at (snd (transfer Some (\<lambda>k. k) (move ''L'' ''Z'' 1) bank)) ''L''
     = Some (Finite 10000000000000000) \<and>
   balance_at (snd (transfer Some (\<lambda>k. k) (move ''L'' ''Z'' 1) bank)) ''Z'' = Some (Finite 1) \<and>
   Finite 10000000000000000 \<noteq> Finite (10000000000000000 - 1) \<and>
   (10000000000000000::real) + 1 \<noteq> 10000000000000000 + 0"
  by (simp add: transfer_def io_defs sample_defs float_defs Let_def)

text \<open>
  Claim C2 (amended). A transfer between two distinct existing accounts of equal currency
  with balances \<open>a0\<close> and \<open>b0\<close> and \<open>0 < amt \<le> a0\<close>, when no store call fails: the source
  ends at the float difference of \<open>a0\<close> and \<open>amt\<close>, the destination at the float sum of
  \<open>b0\<close> and \<open>amt\<close>, and exactly two ledger entries are appended: a transfer entry on the
  source carrying the destination's id, then a deposit entry on the destination whose
  note names the source. Where \<open>a0 - amt\<close> and \<open>b0 + amt\<close> are themselves floats, the
  balances are exactly these and their sum is what it was.
\<close>
theorem transfer_moves_amount:
  assumes "ObjectId (from_account_id p) = Some kf" and "ObjectId (to_account_id p) = Some kt"
    and "kf \<noteq> kt" and "accounts s kf = Some fa" and "accounts s kt = Some ta"
    and "currency fa = currency ta"
    and "a0 = (case balance fa of None \<Rightarrow> Finite 0 | Some x \<Rightarrow> x)"
    and "b0 = (case balance ta of None \<Rightarrow> Finite 0 | Some x \<Rightarrow> x)"
    and "c = (case currency fa of None \<Rightarrow> ''USD'' | Some x \<Rightarrow> x)"
    and "flt (Finite 0) (transfer_amount p)" and "fle (transfer_amount p) a0"
    and "faults s = []"
    and "transfer ObjectId str p s = (r, s')"
  shows "r = Inr ''ok'' \<and>
         balance_at s' kf = Some (fsub a0 (transfer_amount p)) \<and>
         balance_at s' kt = Some (fadd b0 (transfer_amount p)) \<and>
         transactions s' = transactions s @
           [\<lparr>tx_account_id = str kf, tx_type = Transfer, tx_amount = transfer_amount p,
             tx_currency = c, tx_note = transfer_note p,
             tx_to_account_id = Some (str kt), tx_occurred_at = None\<rparr>,
            \<lparr>tx_account_id = str kt, tx_type = Deposit, tx_amount = transfer_amount p,
             tx_currency = c, tx_note = Some (''Transfer from '' @ str kf),
             tx_to_account_id = None, tx_occurred_at = None\<rparr>] \<and>
         (\<forall>x y a. a0 = Finite x \<and> b0 = Finite y \<and> transfer_amount p = Finite a \<and>
                   is_double (x - a) \<and> is_double (y + a) \<longrightarrow>
            balance_at s' kf = Some (Finite (x - a)) \<and>
            balance_at s' kt = Some (Finite (y + a)) \<and>
            (x - a) + (y + a) = x + y)"
proof -
  have a0: "balance_of fa = a0" by (simp add: balance_of_def assms(7))
  have b0: "balance_of ta = b0" by (simp add: balance_of_def assms(8))
  have cf: "currency_of fa = c" by (simp add: currency_of_def assms(9))
  have ct: "currency_of ta = c" using assms(6) by (simp add: currency_of_def assms(9))
  from assms(11) a0 have enough: "\<not> flt (balance_of fa) (transfer_amount p)"
    by (simp add: fle_not_flt)
  note transfer_ok [where ObjectId = ObjectId and str = str,
         OF assms(1-6) assms(10) enough assms(12)]
  with assms(13) have r: "r = Inr ''ok''"
    and s': "s' = s\<lparr>accounts := (accounts s)
          (kf \<mapsto> fa\<lparr>balance := Some (fsub a0 (transfer_amount p))\<rparr>,
           kt \<mapsto> ta\<lparr>balance := Some (fadd b0 (transfer_amount p))\<rparr>),
       journal := (accounts s)
          (kf \<mapsto> fa\<lparr>balance := Some (fsub a0 (transfer_amount p))\<rparr>,
           kt \<mapsto> ta\<lparr>balance := Some (fadd b0 (transfer_amount p))\<rparr>)
         # (accounts s)(kf \<mapsto> fa\<lparr>balance := Some (fsub a0 (transfer_amount p))\<rparr>)
         # journal s,
       transactions := transactions s @
         [\<lparr>tx_account_id = str kf, tx_type = Transfer, tx_amount = transfer_amount p,
           tx_currency = c, tx_note = transfer_note p,
           tx_to_account_id = Some (str kt), tx_occurred_at = None\<rparr>,
          \<lparr>tx_account_id = str kt, tx_type = Deposit, tx_amount = transfer_amount p,
           tx_currency = c, tx_note = Some (''Transfer from '' @ str kf),
           tx_to_account_id = None, tx_occurred_at = None\<rparr>]\<rparr>"
    by (simp_all add: a0 b0 cf ct)
  from assms(3) have src: "balance_at s' kf = Some (fsub a0 (transfer_amount p))"
    by (simp add: s' balance_at_def)
  have dst: "balance_at s' kt = Some (fadd b0 (transfer_amount p))"
    by (simp add: s' balance_at_def)
  have led: "transactions s' = transactions s @
           [\<lparr>tx_account_id = str kf, tx_type = Transfer, tx_amount = transfer_amount p,
             tx_currency = c, tx_note = transfer_note p,
             tx_to_account_id = Some (str kt), tx_occurred_at = None\<rparr>,
            \<lparr>tx_account_id = str kt, tx_type = Deposit, tx_amount = transfer_amount p,
             tx_currency = c, tx_note = Some (''Transfer from '' @ str kf),
             tx_to_account_id = None, tx_occurred_at = None\<rparr>]"
    by (simp add: s')
  have exact: "balance_at s' kf = Some (Finite (x - a)) \<and>
            balance_at s' kt = Some (Finite (y + a)) \<and> (x - a) + (y + a) = x + y"
    if "a0 = Finite x" and "b0 = Finite y" and "transfer_amount p = Finite a"
      and "is_double (x - a)" and "is_double (y + a)" for x y a
    using that src dst by (simp add: fsub_exact is_double_def)
  from r src dst led exact show ?thesis by blast
qed

theorem transfer_moves_amount_witness:
  "fst (transfer Some (\<lambda>k. k) (move ''A'' ''B'' 30) bank) = Inr ''ok'' \<and>
   balance_at (snd (transfer Some (\<lambda>k. k) (move ''A'' ''B'' 30) bank)) ''A''
     = Some (Finite 70) \<and>
   balance_at (snd (transfer Some (\<lambda>k. k) (move ''A'' ''B'' 30) bank)) ''B''
     = Some (Finite 80) \<and>
   transactions (snd (transfer Some (\<lambda>k. k) (move ''A'' ''B'' 30) bank)) =
     [\<lparr>tx_account_id = ''A'', tx_type = Transfer, tx_amount = Finite 30, tx_currency = ''USD'',
       tx_note = Some ''rent'', tx_to_account_id = Some ''B'', tx_occurred_at = None\<rparr>,
      \<lparr>tx_account_id = ''B'', tx_type = Deposit, tx_amount = Finite 30, tx_currency = ''USD'',
       tx_note = Some ''Transfer from A'', tx_to_account_id = None, tx_occurred_at = None\<rparr>]"
proof -
  have i: "Some (from_account_id (move ''A'' ''B'' 30)) = Some ''A''" by (simp add: move_def)
  have j: "Some (to_account_id (move ''A'' ''B'' 30)) = Some ''B''" by (simp add: move_def)
  have d: "''A'' \<noteq> ''B''" by simp
  have a: "accounts bank ''A'' = Some (acct 100 ''USD'')" by (simp add: bank_def)
  have b: "accounts bank ''B'' = Some (acct 50 ''USD'')" by (simp add: bank_def)
  have c: "currency (acct 100 ''USD'') = currency (acct 50 ''USD'')" by (simp add: acct_def)
  have a0: "Finite 100 = (case balance (acct 100 ''USD'') of None \<Rightarrow> Finite 0 | Some x \<Rightarrow> x)"
    by (simp add: acct_def)
  have b0: "Finite 50 = (case balance (acct 50 ''USD'') of None \<Rightarrow> Finite 0 | Some x \<Rightarrow> x)"
    by (simp add: acct_def)
  have cu: "''USD'' = (case currency (acct 100 ''USD'') of None \<Rightarrow> ''USD'' | Some x \<Rightarrow> x)"
    by (simp add: acct_def)
  have p: "flt (Finite 0) (transfer_amount (move ''A'' ''B'' 30))" by (simp add: move_def)
  have l: "fle (transfer_amount (move ''A'' ''B'' 30)) (Finite 100)"
    by (simp add: move_def fle_def)
  have f: "faults bank = []" by (simp add: bank_def)
  have t: "transactions bank = []" by (simp add: bank_def)
  have debit: "fsub (Finite 100) (transfer_amount (move ''A'' ''B'' 30)) = Finite 70"
    by (simp add: move_def float_defs Let_def)
  have credit: "fadd (Finite 50) (transfer_amount (move ''A'' ''B'' 30)) = Finite 80"
    by (simp add: move_def float_defs Let_def)
  from transfer_moves_amount [where ObjectId = Some and str = "\<lambda>k. k",
         OF i j d a b c a0 b0 cu p l f surjective_pairing]
  have "fst (transfer Some (\<lambda>k. k) (move ''A'' ''B'' 30) bank) = Inr ''ok'' \<and>
     balance_at (snd (transfer Some (\<lambda>k. k) (move ''A'' ''B'' 30) bank)) ''A''
       = Some (fsub (Finite 100) (transfer_amount (move ''A'' ''B'' 30))) \<and>
     balance_at (snd (transfer Some (\<lambda>k. k) (move ''A'' ''B'' 30) bank)) ''B''
       = Some (fadd (Finite 50) (transfer_amount (move ''A'' ''B'' 30))) \<and>
     transactions (snd (transfer Some (\<lambda>k. k) (move ''A'' ''B'' 30) bank)) = transactions bank @
       [\<lparr>tx_account_id = ''A'', tx_type = Transfer,
         tx_amount = transfer_amount (move ''A'' ''B'' 30),
         tx_currency = ''USD'', tx_note = transfer_note (move ''A'' ''B'' 30),
         tx_to_account_id = Some ''B'', tx_occurred_at = None\<rparr>,
        \<lparr>tx_account_id = ''B'', tx_type = Deposit,
         tx_amount = transfer_amount (move ''A'' ''B'' 30),
         tx_currency = ''USD'', tx_note = Some (''Transfer from '' @ ''A''),
         tx_to_account_id = None, tx_occurred_at = None\<rparr>]"
    by blast
  then show ?thesis by (simp add: debit credit t) (simp add: move_def)
qed

text \<open>
  Claim C7 (as stated, it fails). A transfer of 1 from the account holding \<open>10 ^ 16\<close> to
  itself succeeds and leaves the balance at \<open>10 ^ 16\<close>: not \<open>b + amt\<close>, and no money is
  created.
\<close>
theorem self_transfer_of_a_small_amount:
  "balance_at bank ''L'' = Some (Finite 10000000000000000) \<and>
   fst (transfer Some (\<lambda>k. k) (move ''L'' ''L'' 1) bank) = Inr ''ok'' \<and>
   balance_at (snd (transfer Some (\<lambda>k. k) (move ''L'' ''L'' 1) bank)) ''L''
     = Some (Finite 10000000000000000) \<and>
   Finite 10000000000000000 \<noteq> Finite (10000000000000000 + 1)"
  by (simp add: transfer_def io_defs sample_defs float_defs Let_def)

text \<open>
  Claim C7 (amended). A transfer whose source and destination are the same existing
  account, with balance \<open>b\<close> and \<open>0 < amt \<le> b\<close>, succeeds and leaves the balance at the
  float sum of \<open>b\<close> and \<open>amt\<close>: the debit is written first, then the credit, computed
  from the balance read before the debit, is written over it. Where \<open>b + amt\<close> is itself
  a float, the final balance is exactly \<open>b + amt\<close>.
\<close>
theorem transfer_to_same_account:
  assumes "ObjectId (from_account_id p) = Some k" and "ObjectId (to_account_id p) = Some k"
    and "accounts s k = Some acc"
    and "b = (case balance acc of None \<Rightarrow> Finite 0 | Some x \<Rightarrow> x)"
    and "flt (Finite 0) (transfer_amount p)" and "fle (transfer_amount p) b"
    and "faults s = []"
    and "transfer ObjectId str p s = (r, s')"
  shows "r = Inr ''ok'' \<and> balance_at s' k = Some (fadd b (transfer_amount p)) \<and>
         hd (tl (journal s')) k
           = Some (acc\<lparr>balance := Some (fsub b (transfer_amount p))\<rparr>) \<and>
         (\<forall>x a. b = Finite x \<and> transfer_amount p = Finite a \<and> is_double (x + a) \<longrightarrow>
            balance_at s' k = Some (Finite (x + a)))"
proof -
  have b: "balance_of acc = b" by (simp add: balance_of_def assms(4))
  from assms(6) b have enough: "\<not> flt (balance_of acc) (transfer_amount p)"
    by (simp add: fle_not_flt)
  note transfer_self [where ObjectId = ObjectId and str = str,
         OF assms(1-3) assms(5) enough assms(7)]
  with assms(8) b have r: "r = Inr ''ok''"
    and bal: "balance_at s' k = Some (fadd b (transfer_amount p))"
    and mid: "hd (tl (journal s')) k = Some (acc\<lparr>balance := Some (fsub b (transfer_amount p))\<rparr>)"
    by (auto simp: balance_at_def)
  from r bal mid show ?thesis by (auto simp: is_double_def)
qed

theorem transfer_to_same_account_witness:
  "fst (transfer Some (\<lambda>k. k) (move ''A'' ''A'' 40) bank) = Inr ''ok'' \<and>
   balance_at (snd (transfer Some (\<lambda>k. k) (move ''A'' ''A'' 40) bank)) ''A''
     = Some (Finite 140)"
proof -
  have i: "Some (from_account_id (move ''A'' ''A'' 40)) = Some ''A''" by (simp add: move_def)
  have j: "Some (to_account_id (move ''A'' ''A'' 40)) = Some ''A''" by (simp add: move_def)
  have a: "accounts bank ''A'' = Some (acct 100 ''USD'')" by (simp add: bank_def)
  have b: "Finite 100 = (case balance (acct 100 ''USD'') of None \<Rightarrow> Finite 0 | Some x \<Rightarrow> x)"
    by (simp add: acct_def)
  have p: "flt (Finite 0) (transfer_amount (move ''A'' ''A'' 40))" by (simp add: move_def)
  have l: "fle (transfer_amount (move ''A'' ''A'' 40)) (Finite 100)"
    by (simp add: move_def fle_def)
  have f: "faults bank = []" by (simp add: bank_def)
  have credit: "fadd (Finite 100) (transfer_amount (move ''A'' ''A'' 40)) = Finite 140"
    by (simp add: move_def float_defs Let_def)
  from transfer_to_same_account [where ObjectId = Some and str = "\<lambda>k. k",
         OF i j a b p l f surjective_pairing]
  have "fst (transfer Some (\<lambda>k. k) (move ''A'' ''A'' 40) bank) = Inr ''ok'' \<and>
     balance_at (snd (transfer Some (\<lambda>k. k) (move ''A'' ''A'' 40) bank)) ''A''
       = Some (fadd (Finite 100) (transfer_amount (move ''A'' ''A'' 40)))"
    by blast
  then show ?thesis by (simp add: credit)
qed

text \<open>
  Claim C6. A transfer between two existing accounts whose currency fields differ is
  refused with "Currency mismatch" (HTTP 400); both balances, the whole account
  collection and the ledger are left as they were.
\<close>
theorem transfer_currency_mismatch:
  assumes "ObjectId (from_account_id p) = Some kf" and "ObjectId (to_account_id p) = Some kt"
    and "accounts s kf = Some fa" and "accounts s kt = Some ta"
    and "currency fa \<noteq> currency ta" and "faults s = []"
    and "transfer ObjectId str p s = (r, s')"
  shows "r = Inl (HTTPException 400 (Text ''Currency mismatch'')) \<and>
         balance_at s' kf = balance_at s kf \<and> balance_at s' kt = balance_at s kt \<and>
         accounts s' = accounts s \<and> transactions s' = transactions s"
proof -
  note transfer_mismatch [where ObjectId = ObjectId and str = str, OF assms(1-6)]
  with assms(7) show ?thesis by simp
qed

theorem transfer_currency_mismatch_witness:
  "fst (transfer Some (\<lambda>k. k) (move ''A'' ''E'' 5) bank)
     = Inl (HTTPException 400 (Text ''Currency mismatch'')) \<and>
   balance_at (snd (transfer Some (\<lambda>k. k) (move ''A'' ''E'' 5) bank)) ''A''
     = Some (Finite 100) \<and>
   balance_at (snd (transfer Some (\<lambda>k. k) (move ''A'' ''E'' 5) bank)) ''E''
     = Some (Finite 10) \<and>
   transactions (snd (transfer Some (\<lambda>k. k) (move ''A'' ''E'' 5) bank)) = []"
proof -
  have i: "Some (from_account_id (move ''A'' ''E'' 5)) = Some ''A''" by (simp add: move_def)
  have j: "Some (to_account_id (move ''A'' ''E'' 5)) = Some ''E''" by (simp add: move_def)
  have a: "accounts bank ''A'' = Some (acct 100 ''USD'')" by (simp add: bank_def)
  have e: "accounts bank ''E'' = Some (acct 10 ''EUR'')" by (simp add: bank_def)
  have c: "currency (acct 100 ''USD'') \<noteq> currency (acct 10 ''EUR'')" by (simp add: acct_def)
  have f: "faults bank = []" by (simp add: bank_def)
  from transfer_currency_mismatch [where ObjectId = Some and str = "\<lambda>k. k",
         OF i j a e c f surjective_pairing]
  show ?thesis by (simp add: sample_defs)
qed

section \<open>A transfer interrupted after the debit\<close>

text \<open>
  Claim C1 (as stated, it fails). In the sample store the fourth store call, the credit
  of the destination, fails: the call ends with status 500 while the source has gone
  from 100 to 70, the destination still holds 50 and the ledger is empty. The debit is
  applied with no credit and no compensation.
\<close>
theorem transfer_debit_without_credit:
  "fst (transfer Some (\<lambda>k. k) (move ''A'' ''B'' 30) bank_failing_credit)
     = Inl (HTTPException 500 (Str StoreError)) \<and>
   balance_at bank_failing_credit ''A'' = Some (Finite 100) \<and>
   balance_at (snd (transfer Some (\<lambda>k. k) (move ''A'' ''B'' 30) bank_failing_credit)) ''A''
     = Some (Finite 70) \<and>
   balance_at (snd (transfer Some (\<lambda>k. k) (move ''A'' ''B'' 30) bank_failing_credit)) ''B''
     = Some (Finite 50) \<and>
   transactions (snd (transfer Some (\<lambda>k. k) (move ''A'' ''B'' 30) bank_failing_credit)) = []"
  by (simp add: transfer_def io_defs Let_def sample_defs float_defs bank_failing_credit_def)

text \<open>
  Claim C1 (amended). A transfer of \<open>0 < amt \<le> a0\<close> between two distinct existing accounts
  of equal currency in which both lookups and the debit have succeeded: the source stays
  debited whatever happens next. If no later store call fails, the credit and both ledger
  entries are applied and the call returns ok. If one fails, the call ends with status
  500 and what was written before stays: nothing but the debit when the credit fails,
  debit and credit when the first append fails, debit, credit and the entry of the
  source when the second append fails.
\<close>
theorem transfer_fault_after_debit:
  assumes "ObjectId (from_account_id p) = Some kf" and "ObjectId (to_account_id p) = Some kt"
    and "kf \<noteq> kt" and "accounts s kf = Some fa" and "accounts s kt = Some ta"
    and "currency fa = currency ta" and "flt (Finite 0) (transfer_amount p)"
    and "fle (transfer_amount p) (balance_of fa)"
    and "True \<notin> set (take 3 (faults s))"
    and "transfer ObjectId str p s = (r, s')"
  shows "balance_at s' kf = Some (fsub (balance_of fa) (transfer_amount p)) \<and>
    (True \<notin> set (take 6 (faults s)) \<longrightarrow>
       r = Inr ''ok'' \<and>
       balance_at s' kt = Some (fadd (balance_of ta) (transfer_amount p)) \<and>
       transactions s' = transactions s @
         [\<lparr>tx_account_id = str kf, tx_type = Transfer, tx_amount = transfer_amount p,
           tx_currency = currency_of fa, tx_note = transfer_note p,
           tx_to_account_id = Some (str kt), tx_occurred_at = None\<rparr>,
          \<lparr>tx_account_id = str kt, tx_type = Deposit, tx_amount = transfer_amount p,
           tx_currency = currency_of ta, tx_note = Some (''Transfer from '' @ str kf),
           tx_to_account_id = None, tx_occurred_at = None\<rparr>]) \<and>
    (True \<in> set (take 6 (faults s)) \<longrightarrow> r = Inl (HTTPException 500 (Str StoreError))) \<and>
    (take 4 (faults s) = [False, False, False, True] \<longrightarrow>
       balance_at s' kt = balance_at s kt \<and> transactions s' = transactions s) \<and>
    (take 5 (faults s) = [False, False, False, False, True] \<longrightarrow>
       balance_at s' kt = Some (fadd (balance_of ta) (transfer_amount p)) \<and>
       transactions s' = transactions s) \<and>
    (take 6 (faults s) = [False, False, False, False, False, True] \<longrightarrow>
       balance_at s' kt = Some (fadd (balance_of ta) (transfer_amount p)) \<and>
       transactions s' = transactions s @
         [\<lparr>tx_account_id = str kf, tx_type = Transfer, tx_amount = transfer_amount p,
           tx_currency = currency_of fa, tx_note = transfer_note p,
           tx_to_account_id = Some (str kt), tx_occurred_at = None\<rparr>])"
proof -
  from assms(8) have enough: "\<not> flt (balance_of fa) (transfer_amount p)"
    by (rule fle_not_flt)
  from assms(1-7) enough assms(9,10) show ?thesis
    by (auto simp: transfer_def io_defs Let_def balance_at_def split: list.splits if_splits)
qed

theorem transfer_fault_after_debit_witness:
  "fst (transfer Some (\<lambda>k. k) (move ''B'' ''Z'' 20) bank_failing_credit)
     = Inl (HTTPException 500 (Str StoreError)) \<and>
   balance_at (snd (transfer Some (\<lambda>k. k) (move ''B'' ''Z'' 20) bank_failing_credit)) ''B''
     = Some (Finite 30) \<and>
   balance_at (snd (transfer Some (\<lambda>k. k) (move ''B'' ''Z'' 20) bank_failing_credit)) ''Z''
     = Some (Finite 0) \<and>
   transactions (snd (transfer Some (\<lambda>k. k) (move ''B'' ''Z'' 20) bank_failing_credit)) = []"
proof -
  have i: "Some (from_account_id (move ''B'' ''Z'' 20)) = Some ''B''" by (simp add: move_def)
  have j: "Some (to_account_id (move ''B'' ''Z'' 20)) = Some ''Z''" by (simp add: move_def)
  have d: "''B'' \<noteq> ''Z''" by simp
  have b: "accounts bank_failing_credit ''B'' = Some (acct 50 ''USD'')"
    by (simp add: bank_failing_credit_def bank_def)
  have z: "accounts bank_failing_credit ''Z'' = Some (acct 0 ''USD'')"
    by (simp add: bank_failing_credit_def bank_def)
  have c: "currency (acct 50 ''USD'') = currency (acct 0 ''USD'')" by (simp add: acct_def)
  have p: "flt (Finite 0) (transfer_amount (move ''B'' ''Z'' 20))" by (simp add: move_def)
  have l: "fle (transfer_amount (move ''B'' ''Z'' 20)) (balance_of (acct 50 ''USD''))"
    by (simp add: sample_defs fle_def)
  have f: "True \<notin> set (take 3 (faults bank_failing_credit))"
    by (simp add: bank_failing_credit_def)
  have g: "True \<in> set (take 6 (faults bank_failing_credit)) \<and>
           take 4 (faults bank_failing_credit) = [False, False, False, True]"
    by (simp add: bank_failing_credit_def)
  have debit: "fsub (balance_of (acct 50 ''USD'')) (transfer_amount (move ''B'' ''Z'' 20))
      = Finite 30"
    by (simp add: sample_defs float_defs Let_def)
  have t: "transactions bank_failing_credit = []"
    by (simp add: bank_failing_credit_def bank_def)
  have e: "balance_at bank_failing_credit ''Z'' = Some (Finite 0)"
    by (simp add: bank_failing_credit_def sample_defs)
  from g transfer_fault_after_debit [where ObjectId = Some and str = "\<lambda>k. k",
         OF i j d b z c p l f surjective_pairing]
  have "fst (transfer Some (\<lambda>k. k) (move ''B'' ''Z'' 20) bank_failing_credit)
       = Inl (HTTPException 500 (Str StoreError)) \<and>
     balance_at (snd (transfer Some (\<lambda>k. k) (move ''B'' ''Z'' 20) bank_failing_credit)) ''B''
       = Some (fsub (balance_of (acct 50 ''USD'')) (transfer_amount (move ''B'' ''Z'' 20))) \<and>
     balance_at (snd (transfer Some (\<lambda>k. k) (move ''B'' ''Z'' 20) bank_failing_credit)) ''Z''
       = balance_at bank_failing_credit ''Z'' \<and>
     transactions (snd (transfer Some (\<lambda>k. k) (move ''B'' ''Z'' 20) bank_failing_credit))
       = transactions bank_failing_credit"
    by blast
  then show ?thesis by (simp add: debit t e)
qed

section \<open>Sequences of calls\<close>




section \<open>Two withdrawals at the same time\<close>

text \<open>
  Claim C10 (as stated, it fails). Two withdrawals of 60 from the account holding 100
  that both read the balance before either writes: both succeed and both return 40, the
  account ends at 40 and the ledger records two withdrawals of 60.
\<close>
theorem both_withdrawals_succeed:
  "balance_at bank ''A'' = Some (Finite 100) \<and>
   fst (withdraw_race Some (\<lambda>k. k) ''A'' (pay 60) ''A'' (pay 60) bank)
     = (Inr (Finite 40), Inr (Finite 40)) \<and>
   balance_at (snd (withdraw_race Some (\<lambda>k. k) ''A'' (pay 60) ''A'' (pay 60) bank)) ''A''
     = Some (Finite 40) \<and>
   map tx_amount (transactions
      (snd (withdraw_race Some (\<lambda>k. k) ''A'' (pay 60) ''A'' (pay 60) bank)))
     = [Finite 60, Finite 60]"
  by (simp add: withdraw_race_def withdraw_read_def withdraw_write_def resume_def io_defs
        sample_defs float_defs Let_def)

text \<open>
  Claim C10 (amended). Two withdrawals of the same amount from an account whose balance
  covers one of them but not both. Made one after the other, the first succeeds and the
  second is refused with "Insufficient funds"; the balance is reduced once and one
  ledger entry is appended. When both read the balance before either writes, both
  succeed and return the same new balance; the balance is reduced once although the
  ledger records two withdrawals. No serial order of the two calls gives that outcome.
\<close>
theorem overlapping_withdrawals:
  assumes "ObjectId account_id = Some k" and "accounts s k = Some acc"
    and "b = (case balance acc of None \<Rightarrow> Finite 0 | Some x \<Rightarrow> x)"
    and "flt (Finite 0) (amount p)" and "fle (amount p) b"
    and "flt (fsub b (amount p)) (amount p)"
    and "faults s = []"
    and "withdraw ObjectId str account_id p s = (r1, s1)"
    and "withdraw ObjectId str account_id p s1 = (r2, s2)"
    and "withdraw_race ObjectId str account_id p account_id p s = ((w1, w2), s')"
  shows "r1 = Inr (fsub b (amount p)) \<and>
         r2 = Inl (HTTPException 400 (Text ''Insufficient funds'')) \<and>
         balance_at s2 k = Some (fsub b (amount p)) \<and>
         length (transactions s2) = length (transactions s) + 1 \<and>
         w1 = Inr (fsub b (amount p)) \<and> w2 = Inr (fsub b (amount p)) \<and>
         balance_at s' k = Some (fsub b (amount p)) \<and>
         length (transactions s') = length (transactions s) + 2"
proof -
  have b: "balance_of acc = b" by (simp add: balance_of_def assms(3))
  from assms(5) b have enough: "\<not> flt (balance_of acc) (amount p)" by (simp add: fle_not_flt)
  let ?new = "fsub b (amount p)"
  let ?acc = "acc\<lparr>balance := Some ?new\<rparr>"
  note withdraw_ok [where ObjectId = ObjectId and str = str, OF assms(1,2,4) enough assms(7)]
  with assms(8) b have r1: "r1 = Inr ?new"
    and s1: "s1 = s\<lparr>accounts := (accounts s)(k \<mapsto> ?acc),
       journal := (accounts s)(k \<mapsto> ?acc) # journal s,
       transactions := transactions s @
         [\<lparr>tx_account_id = str k, tx_type = Withdraw, tx_amount = amount p,
           tx_currency = currency_of acc, tx_note = req_note p,
           tx_to_account_id = None, tx_occurred_at = None\<rparr>]\<rparr>"
    by simp_all
  have acc1: "accounts s1 k = Some ?acc" by (simp add: s1)
  from assms(6) have short: "flt (balance_of ?acc) (amount p)" by simp
  from assms(7) have f1: "faults s1 = []" by (simp add: s1)
  note withdraw_insufficient [where ObjectId = ObjectId and str = str,
         OF assms(1) acc1 short f1]
  with assms(9) have r2: "r2 = Inl (HTTPException 400 (Text ''Insufficient funds''))"
    and s2: "s2 = s1" by simp_all
  have bal2: "balance_at s2 k = Some ?new" by (simp add: s2 s1 balance_at_def)
  have len2: "length (transactions s2) = length (transactions s) + 1" by (simp add: s2 s1)
  have read: "withdraw_read ObjectId account_id p s = (Inr (k, acc), s)"
    using assms(1,2) enough assms(7) by (rule withdraw_read_ok)
  have write1: "resume (Inr (k, acc)) (withdraw_write str p) s =
      (Inr ?new, s1)"
    using withdraw_write_ok [where str = str, OF assms(2,4,7), of acc] b by (simp add: s1)
  have write2: "resume (Inr (k, acc)) (withdraw_write str p) s1 =
      (Inr ?new,
       s1\<lparr>accounts := (accounts s1)(k \<mapsto> ?acc\<lparr>balance := Some ?new\<rparr>),
         journal := (accounts s1)(k \<mapsto> ?acc\<lparr>balance := Some ?new\<rparr>) # journal s1,
         transactions := transactions s1 @
           [\<lparr>tx_account_id = str k, tx_type = Withdraw, tx_amount = amount p,
             tx_currency = currency_of acc, tx_note = req_note p,
             tx_to_account_id = None, tx_occurred_at = None\<rparr>]\<rparr>)"
    using withdraw_write_ok [where str = str, OF acc1 assms(4) f1, of acc] b by simp
  define final where "final = s1\<lparr>accounts := (accounts s1)(k \<mapsto> ?acc\<lparr>balance := Some ?new\<rparr>),
         journal := (accounts s1)(k \<mapsto> ?acc\<lparr>balance := Some ?new\<rparr>) # journal s1,
         transactions := transactions s1 @
           [\<lparr>tx_account_id = str k, tx_type = Withdraw, tx_amount = amount p,
             tx_currency = currency_of acc, tx_note = req_note p,
             tx_to_account_id = None, tx_occurred_at = None\<rparr>]\<rparr>"
  have "withdraw_race ObjectId str account_id p account_id p s = ((Inr ?new, Inr ?new), final)"
    by (simp add: withdraw_race_def read write1 write2 final_def)
  from this assms(10) have "((Inr ?new, Inr ?new), final) = ((w1, w2), s')"
    by (rule trans [OF sym])
  then have w: "w1 = Inr ?new \<and> w2 = Inr ?new" and s': "s' = final" by blast+
  have bal': "balance_at s' k = Some ?new" by (simp add: s' final_def balance_at_def)
  have len': "length (transactions s') = length (transactions s) + 2"
    by (simp add: s' final_def s1)
  from r1 r2 bal2 len2 w bal' len' show ?thesis by simp
qed

theorem overlapping_withdrawals_witness:
  "fst (withdraw Some (\<lambda>k. k) ''A'' (pay 60) bank) = Inr (Finite 40) \<and>
   fst (withdraw Some (\<lambda>k. k) ''A'' (pay 60) (snd (withdraw Some (\<lambda>k. k) ''A'' (pay 60) bank)))
     = Inl (HTTPException 400 (Text ''Insufficient funds'')) \<and>
   fst (withdraw_race Some (\<lambda>k. k) ''A'' (pay 60) ''A'' (pay 60) bank)
     = (Inr (Finite 40), Inr (Finite 40)) \<and>
   length (transactions (snd (withdraw_race Some (\<lambda>k. k) ''A'' (pay 60) ''A'' (pay 60) bank)))
     = 2"
proof -
  have i: "Some ''A'' = Some ''A''" by simp
  have a: "accounts bank ''A'' = Some (acct 100 ''USD'')" by (simp add: bank_def)
  have b: "Finite 100 = (case balance (acct 100 ''USD'') of None \<Rightarrow> Finite 0 | Some x \<Rightarrow> x)"
    by (simp add: acct_def)
  have diff: "fsub (Finite 100) (amount (pay 60)) = Finite 40"
    by (simp add: pay_def float_defs Let_def)
  have p: "flt (Finite 0) (amount (pay 60))" by (simp add: pay_def)
  have l: "fle (amount (pay 60)) (Finite 100)" by (simp add: pay_def fle_def)
  have m: "flt (fsub (Finite 100) (amount (pay 60))) (amount (pay 60))"
    by (simp add: diff) (simp add: pay_def)
  have f: "faults bank = []" by (simp add: bank_def)
  have t: "transactions bank = []" by (simp add: bank_def)
  have pr: "withdraw_race Some (\<lambda>k. k) ''A'' (pay 60) ''A'' (pay 60) bank =
    ((fst (fst (withdraw_race Some (\<lambda>k. k) ''A'' (pay 60) ''A'' (pay 60) bank)),
      snd (fst (withdraw_race Some (\<lambda>k. k) ''A'' (pay 60) ''A'' (pay 60) bank))),
     snd (withdraw_race Some (\<lambda>k. k) ''A'' (pay 60) ''A'' (pay 60) bank))"
    by simp
  from overlapping_withdrawals [where ObjectId = Some and str = "\<lambda>k. k",
         OF i a b p l m f surjective_pairing surjective_pairing pr]
  show ?thesis by (simp add: diff t prod_eq_iff)
qed

end
